theory Spec2Isabelle
  imports Complex_Main
begin

section \<open>Python values\<close>

text \<open>
  A Python float is a finite binary fraction, an infinity or NaN. A finite float is kept
  by its exact rational value; \<open>0.0\<close> and \<open>-0.0\<close> are both \<open>Finite 0\<close>
  (they are equal and both falsy in Python).
\<close>

datatype pyfloat = Finite rat | PosInf | NegInf | NaN

text \<open>
  What \<open>json.loads\<close> produces: \<open>None\<close>, \<open>bool\<close>, \<open>int\<close>, \<open>float\<close>, \<open>str\<close>,
  \<open>list\<close> and \<open>dict\<close> with string keys. A dict is an association list in insertion order;
  a lookup takes the first entry of a key.
\<close>

datatype json =
    JNull
  | JBool bool
  | JInt int
  | JFloat pyfloat
  | JStr string
  | JArr "json list"
  | JObj "(string \<times> json) list"

text \<open>The Python exceptions that the modelled code can raise.\<close>

datatype py_exc = AttributeError | TypeError | IndexError | KeyError | OverflowError | ValueError

text \<open>
  The errors of the application, all raised through \<open>frappe.throw\<close>:
  \<^item> \<open>InvalidTransition old new\<close>: "Cannot change status from old to new";
  \<^item> \<open>NoItemsToConfirm\<close>: "Cannot confirm delivery without any items";
  \<^item> \<open>InvalidPaymentType p\<close>: "Invalid payment type: p";
  \<^item> \<open>FailedToParse e\<close>: "Failed to parse Azure response: e", raised by the handler of
    \<open>parse_azure_response\<close> for any exception \<open>e\<close> of its body.
\<close>

datatype error =
    InvalidTransition string string
  | NoItemsToConfirm
  | InvalidPaymentType string
  | FailedToParse py_exc

section \<open>The delivery note document\<close>

type_synonym timestamp = string

text \<open>
  One row of the child table \<open>items\<close>. A text field holds \<open>None\<close> when the grid cell it
  was read from was never filled.
\<close>

record line_item =
  sr_no :: int
  item_id :: "string option"
  flexi_code :: "string option"
  item_name :: "string option"
  item_name_short :: "string option"
  unit :: "string option"
  qty :: pyfloat
  cartons :: pyfloat

text \<open>
  The document. The ten header fields are read and written by name (\<open>doc.get(field)\<close>,
  \<open>doc.set(field, value)\<close>), so they are a map from the field name; a missing entry is
  \<open>None\<close>.
\<close>

record delivery_note =
  header :: "string \<rightharpoonup> json"
  status :: string
  payment_type :: "string option"
  items :: "line_item list"
  driver_confirmed_at :: "timestamp option"
  delivered_at :: "timestamp option"

section \<open>Validation (landmark\_delivery\_note.py)\<close>

definition valid_status_flow :: "(string \<times> string list) list" where
  "valid_status_flow =
    [(''Image Received'', [''Parsed'', ''Awaiting Driver Confirmation'']),
     (''Parsed'', [''Awaiting Driver Confirmation'']),
     (''Awaiting Driver Confirmation'', [''Confirmed by Driver'']),
     (''Confirmed by Driver'', [''Delivered - Cash Received'', ''Delivered - Credit'']),
     (''Delivered - Cash Received'', []),
     (''Delivered - Credit'', [])]"

text \<open>
  \<open>is_new\<close> is \<open>self.is_new()\<close> and \<open>old_doc\<close> is \<open>self.get_doc_before_save()\<close>, the copy
  the framework loaded from storage before this save (\<open>None\<close> when there is none).
\<close>

definition validate_status_flow :: "bool \<Rightarrow> delivery_note option \<Rightarrow> delivery_note \<Rightarrow> error + unit" where
  "validate_status_flow is_new old_doc self =
    (if is_new then Inr ()
     else case old_doc of
       None \<Rightarrow> Inr ()
     | Some old \<Rightarrow>
         if status old \<noteq> status self then
           (let allowed_statuses =
                  (case map_of valid_status_flow (status old) of None \<Rightarrow> [] | Some a \<Rightarrow> a)
            in if status self \<notin> set allowed_statuses
               then Inl (InvalidTransition (status old) (status self))
               else Inr ())
         else Inr ())"

definition confirmation_statuses :: "string list" where
  "confirmation_statuses =
    [''Confirmed by Driver'', ''Delivered - Cash Received'', ''Delivered - Credit'']"

definition validate_items_for_confirmation :: "delivery_note \<Rightarrow> error + unit" where
  "validate_items_for_confirmation self =
    (if status self \<in> set confirmation_statuses \<and> items self = []
     then Inl NoItemsToConfirm else Inr ())"

definition validate_payment_type :: "delivery_note \<Rightarrow> delivery_note" where
  "validate_payment_type self =
    (if status self \<in> set [''Delivered - Cash Received'', ''Delivered - Credit'']
     then (if status self = ''Delivered - Cash Received'' \<and> payment_type self \<noteq> Some ''Cash''
           then self\<lparr>payment_type := Some ''Cash''\<rparr>
           else if status self = ''Delivered - Credit'' \<and> payment_type self \<noteq> Some ''Credit''
           then self\<lparr>payment_type := Some ''Credit''\<rparr>
           else self)
     else self)"

text \<open>A Python string is truthy when it is neither \<open>None\<close> nor empty.\<close>

definition str_truthy :: "string option \<Rightarrow> bool" where
  "str_truthy v = (case v of None \<Rightarrow> False | Some s \<Rightarrow> s \<noteq> [])"

definition short_item_name :: "line_item \<Rightarrow> line_item" where
  "short_item_name item =
    (if str_truthy (item_name item) \<and> \<not> str_truthy (item_name_short item)
     then (let name = the (item_name item)
           in item\<lparr>item_name_short :=
                Some (take 40 name @ (if length name > 40 then ''...'' else ''''))\<rparr>)
     else item)"

definition generate_short_item_names :: "delivery_note \<Rightarrow> delivery_note" where
  "generate_short_item_names self = self\<lparr>items := map short_item_name (items self)\<rparr>"

text \<open>
  \<open>validate\<close> runs the four steps in the order of the source; the first two only raise,
  the last two only assign.
\<close>

definition validate :: "bool \<Rightarrow> delivery_note option \<Rightarrow> delivery_note \<Rightarrow> error + delivery_note" where
  "validate is_new old_doc self =
    (case validate_status_flow is_new old_doc self of
       Inl e \<Rightarrow> Inl e
     | Inr _ \<Rightarrow>
        (case validate_items_for_confirmation self of
           Inl e \<Rightarrow> Inl e
         | Inr _ \<Rightarrow> Inr (generate_short_item_names (validate_payment_type self))))"

section \<open>Persistence and the guarded operations\<close>

text \<open>
  The document in memory and its copy in storage (\<open>None\<close> before the first insert).
  \<open>save\<close> is the framework's contract as the document class relies on it: it runs
  \<open>validate\<close> against the stored copy and, when no step raises, stores the validated
  document. A raise leaves storage as it was; the fields assigned in memory before the
  raise stay assigned.
\<close>

record session =
  doc :: delivery_note
  stored :: "delivery_note option"

definition save :: "session \<Rightarrow> (error + unit) \<times> session" where
  "save s =
    (case validate (stored s = None) (stored s) (doc s) of
       Inl e \<Rightarrow> (Inl e, s)
     | Inr d \<Rightarrow> (Inr (), s\<lparr>doc := d, stored := Some d\<rparr>))"

text \<open>\<open>now\<close> is the value of \<open>frappe.utils.now()\<close> at the call.\<close>

definition set_driver_confirmed :: "timestamp \<Rightarrow> session \<Rightarrow> (error + unit) \<times> session" where
  "set_driver_confirmed now s =
    save (s\<lparr>doc := (doc s)\<lparr>status := ''Confirmed by Driver'',
                              driver_confirmed_at := Some now\<rparr>\<rparr>)"

definition set_delivered :: "timestamp \<Rightarrow> string \<Rightarrow> session \<Rightarrow> (error + unit) \<times> session" where
  "set_delivered now p s =
    (case (if p = ''Cash''
           then Inr ((doc s)\<lparr>status := ''Delivered - Cash Received'', payment_type := Some ''Cash''\<rparr>)
           else if p = ''Credit''
           then Inr ((doc s)\<lparr>status := ''Delivered - Credit'', payment_type := Some ''Credit''\<rparr>)
           else Inl (InvalidPaymentType p)) of
       Inl e \<Rightarrow> (Inl e, s)
     | Inr d \<Rightarrow> save (s\<lparr>doc := d\<lparr>delivered_at := Some now\<rparr>\<rparr>))"

text \<open>
  The edges of the transition graph as the specification lists them, as pairs; the
  dict \<open>valid_status_flow\<close> above is the one of the source.
\<close>

definition transition_edges :: "(string \<times> string) set" where
  "transition_edges =
    {(''Image Received'', ''Parsed''),
     (''Image Received'', ''Awaiting Driver Confirmation''),
     (''Parsed'', ''Awaiting Driver Confirmation''),
     (''Awaiting Driver Confirmation'', ''Confirmed by Driver''),
     (''Confirmed by Driver'', ''Delivered - Cash Received''),
     (''Confirmed by Driver'', ''Delivered - Credit'')}"

section \<open>Python operations on JSON values\<close>

text \<open>Sequencing of steps that may raise: the first exception ends the computation.\<close>

definition and_then :: "'e + 'a \<Rightarrow> ('a \<Rightarrow> 'e + 'b) \<Rightarrow> 'e + 'b" where
  "and_then m f = (case m of Inl e \<Rightarrow> Inl e | Inr x \<Rightarrow> f x)"

text \<open>A \<open>for\<close> loop over a list whose body updates a state and may raise.\<close>

fun for_each :: "('a \<Rightarrow> 's \<Rightarrow> 'e + 's) \<Rightarrow> 'a list \<Rightarrow> 's \<Rightarrow> 'e + 's" where
  "for_each f [] s = Inr s"
| "for_each f (x # xs) s = (case f x s of Inl e \<Rightarrow> Inl e | Inr s' \<Rightarrow> for_each f xs s')"

fun truthy :: "json \<Rightarrow> bool" where
  "truthy JNull = False"
| "truthy (JBool b) = b"
| "truthy (JInt i) = (i \<noteq> 0)"
| "truthy (JFloat f) = (f \<noteq> Finite 0)"
| "truthy (JStr s) = (s \<noteq> [])"
| "truthy (JArr xs) = (xs \<noteq> [])"
| "truthy (JObj kvs) = (kvs \<noteq> [])"

text \<open>The numeric value of \<open>bool\<close>, \<open>int\<close> and \<open>float\<close>; \<open>bool\<close> is a subclass of \<open>int\<close>.\<close>

fun num_val :: "json \<Rightarrow> pyfloat option" where
  "num_val (JBool b) = Some (Finite (if b then 1 else 0))"
| "num_val (JInt i) = Some (Finite (of_int i))"
| "num_val (JFloat f) = Some f"
| "num_val _ = None"

definition float_eq :: "pyfloat \<Rightarrow> pyfloat \<Rightarrow> bool" where
  "float_eq a b = (a \<noteq> NaN \<and> a = b)"

fun float_lt :: "pyfloat \<Rightarrow> pyfloat \<Rightarrow> bool" where
  "float_lt (Finite a) (Finite b) = (a < b)"
| "float_lt (Finite a) PosInf = True"
| "float_lt NegInf (Finite b) = True"
| "float_lt NegInf PosInf = True"
| "float_lt _ _ = False"

text \<open>\<open>s < t\<close> on strings: lexicographic, by character code.\<close>

fun str_lt :: "string \<Rightarrow> string \<Rightarrow> bool" where
  "str_lt [] [] = False"
| "str_lt [] (d # ds) = True"
| "str_lt (c # cs) [] = False"
| "str_lt (c # cs) (d # ds) =
     ((of_char c :: nat) < of_char d \<or> (c = d \<and> str_lt cs ds))"

text \<open>\<open>a == b\<close>: numbers by value, lists elementwise, dicts by key.\<close>

fun py_eq :: "json \<Rightarrow> json \<Rightarrow> bool"
  and eq_list :: "json list \<Rightarrow> json list \<Rightarrow> bool"
  and eq_items :: "(string \<times> json) list \<Rightarrow> (string \<times> json) list \<Rightarrow> bool" where
  "py_eq (JArr xs) (JArr ys) = eq_list xs ys"
| "py_eq (JObj a) (JObj b) = (length a = length b \<and> eq_items a b)"
| "py_eq (JStr s) (JStr t) = (s = t)"
| "py_eq JNull JNull = True"
| "py_eq a b =
     (case (num_val a, num_val b) of (Some x, Some y) \<Rightarrow> float_eq x y | _ \<Rightarrow> False)"
| "eq_list [] [] = True"
| "eq_list (x # xs) (y # ys) = (py_eq x y \<and> eq_list xs ys)"
| "eq_list _ _ = False"
| "eq_items [] b = True"
| "eq_items ((k, v) # a) b =
     ((case map_of b k of None \<Rightarrow> False | Some w \<Rightarrow> py_eq v w) \<and> eq_items a b)"

text \<open>
  \<open>a < b\<close>: defined between numbers, between strings and between lists (at the first
  pair of unequal elements); \<open>TypeError\<close> otherwise.
\<close>

fun py_lt :: "json \<Rightarrow> json \<Rightarrow> py_exc + bool"
  and list_lt :: "json list \<Rightarrow> json list \<Rightarrow> py_exc + bool" where
  "py_lt (JArr xs) (JArr ys) = list_lt xs ys"
| "py_lt (JStr s) (JStr t) = Inr (str_lt s t)"
| "py_lt a b =
     (case (num_val a, num_val b) of
        (Some x, Some y) \<Rightarrow> Inr (float_lt x y)
      | _ \<Rightarrow> Inl TypeError)"
| "list_lt [] [] = Inr False"
| "list_lt [] (y # ys) = Inr True"
| "list_lt (x # xs) [] = Inr False"
| "list_lt (x # xs) (y # ys) = (if py_eq x y then list_lt xs ys else py_lt x y)"

text \<open>\<open>x.get(k, d)\<close>: only a dict has the method.\<close>

definition py_get :: "json \<Rightarrow> string \<Rightarrow> json \<Rightarrow> py_exc + json" where
  "py_get x k d =
    (case x of
       JObj kvs \<Rightarrow> Inr (case map_of kvs k of None \<Rightarrow> d | Some v \<Rightarrow> v)
     | _ \<Rightarrow> Inl AttributeError)"

text \<open>\<open>x.items()\<close>.\<close>

definition py_items :: "json \<Rightarrow> py_exc + (string \<times> json) list" where
  "py_items x = (case x of JObj kvs \<Rightarrow> Inr kvs | _ \<Rightarrow> Inl AttributeError)"

text \<open>
  The values a \<open>for\<close> loop over \<open>x\<close> visits: the elements of a list, the keys of a dict, the
  characters of a string; anything else is not iterable.
\<close>

definition py_iter :: "json \<Rightarrow> py_exc + json list" where
  "py_iter x =
    (case x of
       JArr xs \<Rightarrow> Inr xs
     | JObj kvs \<Rightarrow> Inr (map (\<lambda>kv. JStr (fst kv)) kvs)
     | JStr s \<Rightarrow> Inr (map (\<lambda>c. JStr [c]) s)
     | _ \<Rightarrow> Inl TypeError)"

text \<open>\<open>x[0]\<close>. A dict from JSON has string keys only, so the key \<open>0\<close> is never present.\<close>

definition py_first :: "json \<Rightarrow> py_exc + json" where
  "py_first x =
    (case x of
       JArr xs \<Rightarrow> (case xs of [] \<Rightarrow> Inl IndexError | y # _ \<Rightarrow> Inr y)
     | JStr s \<Rightarrow> (case s of [] \<Rightarrow> Inl IndexError | c # _ \<Rightarrow> Inr (JStr [c]))
     | JObj kvs \<Rightarrow> Inl KeyError
     | _ \<Rightarrow> Inl TypeError)"

text \<open>\<open>range(x)\<close>: its length; only \<open>int\<close> (and \<open>bool\<close>) is accepted.\<close>

definition py_range :: "json \<Rightarrow> py_exc + nat" where
  "py_range x =
    (case x of
       JInt n \<Rightarrow> Inr (nat n)
     | JBool b \<Rightarrow> Inr (if b then 1 else 0)
     | _ \<Rightarrow> Inl TypeError)"

text \<open>
  The position that the index \<open>i\<close> denotes in a list of length \<open>n\<close>: a negative index
  counts from the end, an index outside \<open>-n .. n-1\<close> raises \<open>IndexError\<close>, an index that
  is not an \<open>int\<close> raises \<open>TypeError\<close>.
\<close>

definition int_index :: "nat \<Rightarrow> int \<Rightarrow> py_exc + nat" where
  "int_index n k =
    (if 0 \<le> k \<and> k < int n then Inr (nat k)
     else if k < 0 \<and> - int n \<le> k then Inr (nat (int n + k))
     else Inl IndexError)"

definition py_index :: "nat \<Rightarrow> json \<Rightarrow> py_exc + nat" where
  "py_index n i =
    (case i of
       JInt k \<Rightarrow> int_index n k
     | JBool b \<Rightarrow> int_index n (if b then 1 else 0)
     | _ \<Rightarrow> Inl TypeError)"

text \<open>\<open>xs[i]\<close> for an index that is a natural number.\<close>

definition py_nth :: "'a list \<Rightarrow> nat \<Rightarrow> py_exc + 'a" where
  "py_nth xs i = (if i < length xs then Inr (xs ! i) else Inl IndexError)"

subsection \<open>Strings\<close>

text \<open>
  Text is modelled as ASCII: \<open>lower\<close> maps \<open>A\<close>..\<open>Z\<close> to \<open>a\<close>..\<open>z\<close> and keeps every other
  character; \<open>strip\<close> removes the ASCII whitespace of \<open>str.isspace\<close> (codes 9 to 13, 28
  to 32) at both ends.
\<close>

definition lower_char :: "char \<Rightarrow> char" where
  "lower_char c =
    (case map_of (zip ''ABCDEFGHIJKLMNOPQRSTUVWXYZ'' ''abcdefghijklmnopqrstuvwxyz'') c of
       None \<Rightarrow> c | Some l \<Rightarrow> l)"

definition py_lower :: "string \<Rightarrow> string" where
  "py_lower s = map lower_char s"

definition is_space :: "char \<Rightarrow> bool" where
  "is_space c = ((of_char c :: nat) \<in> set [9, 10, 11, 12, 13, 28, 29, 30, 31, 32])"

definition py_strip :: "string \<Rightarrow> string" where
  "py_strip s = rev (dropWhile is_space (rev (dropWhile is_space s)))"

text \<open>\<open>x.lower()\<close> and \<open>x.strip()\<close> on a value: only a string has the methods.\<close>

definition str_lower :: "json \<Rightarrow> py_exc + string" where
  "str_lower x = (case x of JStr s \<Rightarrow> Inr (py_lower s) | _ \<Rightarrow> Inl AttributeError)"

definition str_strip :: "json \<Rightarrow> py_exc + string" where
  "str_strip x = (case x of JStr s \<Rightarrow> Inr (py_strip s) | _ \<Rightarrow> Inl AttributeError)"

text \<open>\<open>sub in s\<close>.\<close>

fun contains :: "string \<Rightarrow> string \<Rightarrow> bool" where
  "contains sub [] = (sub = [])"
| "contains sub (c # cs) = (take (length sub) (c # cs) = sub \<or> contains sub cs)"

section \<open>Extraction (azure\_parser.py)\<close>

subsection \<open>Lenient numbers\<close>

text \<open>
  The functions of this section take \<open>fl\<close>, Python's \<open>float\<close> on a string: \<open>None\<close> where
  \<open>float(s)\<close> raises \<open>ValueError\<close>. Nothing is assumed about it.
\<close>

text \<open>\<open>int(f)\<close> truncates towards zero; an infinity raises \<open>OverflowError\<close>, NaN \<open>ValueError\<close>.\<close>

definition float_to_int :: "pyfloat \<Rightarrow> py_exc + int" where
  "float_to_int f =
    (case f of
       Finite r \<Rightarrow> Inr (if 0 \<le> r then \<lfloor>r\<rfloor> else \<lceil>r\<rceil>)
     | PosInf \<Rightarrow> Inl OverflowError
     | NegInf \<Rightarrow> Inl OverflowError
     | NaN \<Rightarrow> Inl ValueError)"

text \<open>\<open>str(value).replace(",", "")\<close>.\<close>

definition remove_commas :: "string \<Rightarrow> string" where
  "remove_commas s = filter (\<lambda>c. c \<noteq> CHR '','') s"

text \<open>
  \<open>safe_int(value)\<close> with the default \<open>0\<close>. The handler catches \<open>ValueError\<close> and
  \<open>TypeError\<close> only.
\<close>

definition safe_int :: "(string \<Rightarrow> pyfloat option) \<Rightarrow> string option \<Rightarrow> py_exc + int" where
  "safe_int fl v =
    (case v of
       None \<Rightarrow> Inr 0
     | Some s \<Rightarrow>
         if s = [] then Inr 0
         else (case fl (remove_commas s) of
                 None \<Rightarrow> Inr 0
               | Some f \<Rightarrow>
                   (case float_to_int f of
                      Inr n \<Rightarrow> Inr n
                    | Inl e \<Rightarrow> if e = ValueError \<or> e = TypeError then Inr 0 else Inl e)))"

text \<open>\<open>safe_float(value)\<close> with the default \<open>0.0\<close>.\<close>

definition safe_float :: "(string \<Rightarrow> pyfloat option) \<Rightarrow> string option \<Rightarrow> pyfloat" where
  "safe_float fl v =
    (case v of
       None \<Rightarrow> Finite 0
     | Some s \<Rightarrow>
         if s = [] then Finite 0
         else (case fl (remove_commas s) of None \<Rightarrow> Finite 0 | Some f \<Rightarrow> f))"

subsection \<open>Key/value pairs\<close>

text \<open>The body of the loop over \<open>keyValuePairs\<close>; \<open>pairs\<close> is the dict being built.\<close>

definition kv_step :: "json \<Rightarrow> (string \<rightharpoonup> json) \<Rightarrow> py_exc + (string \<rightharpoonup> json)" where
  "kv_step kv pairs =
    and_then (py_get kv ''key'' JNull) (\<lambda>k.
    if \<not> truthy k then Inr pairs else
    and_then (py_get kv ''value'' JNull) (\<lambda>v.
    if \<not> truthy v then Inr pairs else
    and_then (py_get k ''content'' (JStr [])) (\<lambda>kc.
    and_then (str_lower kc) (\<lambda>kl.
    and_then (py_get v ''content'' (JStr [])) (\<lambda>vc.
    and_then (str_strip vc) (\<lambda>value_text.
    let key_text = py_strip kl
    in if key_text \<noteq> [] \<and> value_text \<noteq> []
       then Inr (pairs(key_text \<mapsto> JStr value_text))
       else Inr pairs))))))"

text \<open>The body of the loop over the fields of one document.\<close>

definition field_step :: "string \<times> json \<Rightarrow> (string \<rightharpoonup> json) \<Rightarrow> (string \<rightharpoonup> json)" where
  "field_step fd pairs =
    (case snd fd of
       JObj d \<Rightarrow>
         (case map_of d ''content'' of
            Some c \<Rightarrow> pairs(py_lower (fst fd) \<mapsto> c)
          | None \<Rightarrow>
              (case map_of d ''valueString'' of
                 Some v \<Rightarrow> pairs(py_lower (fst fd) \<mapsto> v)
               | None \<Rightarrow> pairs))
     | _ \<Rightarrow> pairs)"

definition document_step :: "json \<Rightarrow> (string \<rightharpoonup> json) \<Rightarrow> py_exc + (string \<rightharpoonup> json)" where
  "document_step document pairs =
    and_then (py_get document ''fields'' (JObj [])) (\<lambda>fields.
    and_then (py_items fields) (\<lambda>fds.
    Inr (fold field_step fds pairs)))"

definition extract_key_value_pairs :: "json \<Rightarrow> py_exc + (string \<rightharpoonup> json)" where
  "extract_key_value_pairs analyze_result =
    and_then (py_get analyze_result ''keyValuePairs'' (JArr [])) (\<lambda>kvs.
    and_then (py_iter kvs) (\<lambda>kvl.
    and_then (for_each kv_step kvl Map.empty) (\<lambda>pairs.
    and_then (py_get analyze_result ''documents'' (JArr [])) (\<lambda>docs.
    and_then (py_iter docs) (\<lambda>dl.
    for_each document_step dl pairs)))))"

subsection \<open>Header fields\<close>

text \<open>The dict \<open>field_mapping\<close>, in the order a loop over its items visits it.\<close>

definition field_mapping :: "(string \<times> string) list" where
  "field_mapping =
    [(''delivery note number'', ''delivery_note_no''),
     (''delivery note no'', ''delivery_note_no''),
     (''dn no'', ''delivery_note_no''),
     (''date'', ''delivery_date''),
     (''sales order number'', ''sales_order_no''),
     (''sales order no'', ''sales_order_no''),
     (''so no'', ''sales_order_no''),
     (''sales responsible'', ''sales_responsible''),
     (''delivery mode'', ''delivery_mode''),
     (''customer code'', ''customer_code''),
     (''customer name'', ''customer_name''),
     (''phone'', ''customer_phone''),
     (''customer reference'', ''customer_reference''),
     (''delivery address'', ''delivery_address''),
     (''address'', ''delivery_address'')]"

text \<open>Truthiness of \<open>d.get(k)\<close>, which is \<open>None\<close> for a missing key.\<close>

definition opt_truthy :: "json option \<Rightarrow> bool" where
  "opt_truthy v = (case v of None \<Rightarrow> False | Some x \<Rightarrow> truthy x)"

text \<open>The body of the loop over \<open>field_mapping\<close>.\<close>

definition header_step ::
  "(string \<rightharpoonup> json) \<Rightarrow> string \<times> string \<Rightarrow> delivery_note \<Rightarrow> delivery_note" where
  "header_step key_value_pairs m d =
    (let value = key_value_pairs (py_lower (fst m))
     in if opt_truthy value \<and> \<not> opt_truthy (header d (snd m))
        then d\<lparr>header := (header d)(snd m \<mapsto> the value)\<rparr>
        else d)"

definition update_header_fields :: "(string \<rightharpoonup> json) \<Rightarrow> delivery_note \<Rightarrow> delivery_note" where
  "update_header_fields key_value_pairs d = fold (header_step key_value_pairs) field_mapping d"

subsection \<open>The items table\<close>

type_synonym grid = "string option list list"

text \<open>
  The list comprehension that builds the grid: \<open>range(row_count)\<close> is evaluated first,
  \<open>range(column_count)\<close> once for each row.
\<close>

definition new_grid :: "json \<Rightarrow> json \<Rightarrow> py_exc + grid" where
  "new_grid row_count column_count =
    and_then (py_range row_count) (\<lambda>nr.
    if nr = 0 then Inr []
    else and_then (py_range column_count) (\<lambda>nc. Inr (replicate nr (replicate nc None))))"

text \<open>The body of the loop over the cells. The \<open>and\<close> of the test is short-circuit.\<close>

definition cell_step :: "json \<Rightarrow> json \<Rightarrow> json \<Rightarrow> grid \<Rightarrow> py_exc + grid" where
  "cell_step row_count column_count cell grid =
    and_then (py_get cell ''rowIndex'' (JInt 0)) (\<lambda>row_idx.
    and_then (py_get cell ''columnIndex'' (JInt 0)) (\<lambda>col_idx.
    and_then (py_get cell ''content'' (JStr [])) (\<lambda>c.
    and_then (str_strip c) (\<lambda>content.
    and_then (py_lt row_idx row_count) (\<lambda>row_ok.
    and_then (if row_ok then py_lt col_idx column_count else Inr False) (\<lambda>both_ok.
    if both_ok then
      and_then (py_index (length grid) row_idx) (\<lambda>r.
      and_then (py_index (length (grid ! r)) col_idx) (\<lambda>c.
      Inr (grid[r := (grid ! r)[c := Some content]])))
    else Inr grid))))))"

definition fill_grid :: "json \<Rightarrow> json \<Rightarrow> json list \<Rightarrow> grid \<Rightarrow> py_exc + grid" where
  "fill_grid row_count column_count cells grid =
    for_each (cell_step row_count column_count) cells grid"

text \<open>\<open>str(h).lower().strip() if h else ""\<close>.\<close>

definition header_text :: "string option \<Rightarrow> string" where
  "header_text h = (if str_truthy h then py_strip (py_lower (the h)) else [])"

text \<open>The \<open>if\<close>/\<open>elif\<close> chain that classifies one header: the key it assigns, if any.\<close>

definition column_key :: "string \<Rightarrow> string option" where
  "column_key h =
    (if contains ''sr'' h \<or> (contains ''no'' h \<and> length h < 10) then Some ''sr_no''
     else if contains ''item id'' h \<or> contains ''itemid'' h then Some ''item_id''
     else if contains ''flexi'' h then Some ''flexi_code''
     else if contains ''item name'' h \<or> contains ''description'' h then Some ''item_name''
     else if contains ''unit'' h \<and> \<not> contains ''qty'' h then Some ''unit''
     else if contains ''qty'' h \<or> contains ''quantity'' h then Some ''qty''
     else if contains ''carton'' h then Some ''cartons''
     else None)"

definition col_map_step :: "nat \<times> string \<Rightarrow> (string \<rightharpoonup> nat) \<Rightarrow> (string \<rightharpoonup> nat)" where
  "col_map_step ih col_map =
    (case column_key (snd ih) of None \<Rightarrow> col_map | Some k \<Rightarrow> col_map(k \<mapsto> fst ih))"

definition build_col_map :: "string list \<Rightarrow> (string \<rightharpoonup> nat)" where
  "build_col_map headers = fold col_map_step (enumerate 0 headers) Map.empty"

text \<open>\<open>row[col_map.get(key, dflt)]\<close>.\<close>

definition col_cell ::
  "(string \<rightharpoonup> nat) \<Rightarrow> string \<Rightarrow> int \<Rightarrow> string option list \<Rightarrow> py_exc + string option" where
  "col_cell col_map key dflt row =
    and_then (int_index (length row) (case col_map key of None \<Rightarrow> dflt | Some i \<Rightarrow> int i))
      (\<lambda>j. Inr (row ! j))"

text \<open>
  The dict \<open>item\<close> built for the data row \<open>row_idx\<close>; its entries are evaluated in the
  order of the source.
\<close>

definition make_item ::
  "(string \<Rightarrow> pyfloat option) \<Rightarrow> (string \<rightharpoonup> nat) \<Rightarrow> nat \<Rightarrow> string option list
     \<Rightarrow> py_exc + line_item" where
  "make_item fl col_map row_idx row =
    and_then (if col_map ''sr_no'' \<noteq> None
              then and_then (col_cell col_map ''sr_no'' 0 row) (safe_int fl)
              else Inr (int row_idx)) (\<lambda>v_sr_no.
    and_then (if col_map ''item_id'' \<noteq> None
              then col_cell col_map ''item_id'' 1 row else Inr (Some [])) (\<lambda>v_item_id.
    and_then (if col_map ''flexi_code'' \<noteq> None
              then col_cell col_map ''flexi_code'' (- 1) row else Inr (Some [])) (\<lambda>v_flexi_code.
    and_then (if col_map ''item_name'' \<noteq> None
              then col_cell col_map ''item_name'' 2 row else Inr (Some [])) (\<lambda>v_item_name.
    and_then (if col_map ''unit'' \<noteq> None
              then col_cell col_map ''unit'' (- 1) row else Inr (Some [])) (\<lambda>v_unit.
    and_then (if col_map ''qty'' \<noteq> None
              then and_then (col_cell col_map ''qty'' 3 row) (\<lambda>c. Inr (safe_float fl c))
              else Inr (Finite 0)) (\<lambda>v_qty.
    and_then (if col_map ''cartons'' \<noteq> None
              then and_then (col_cell col_map ''cartons'' (- 1) row) (\<lambda>c. Inr (safe_float fl c))
              else Inr (Finite 0)) (\<lambda>v_cartons.
    Inr \<lparr>sr_no = v_sr_no, item_id = v_item_id, flexi_code = v_flexi_code,
         item_name = v_item_name, item_name_short = None, unit = v_unit,
         qty = v_qty, cartons = v_cartons\<rparr>)))))))"

text \<open>The body of the loop over the data rows; \<open>its\<close> is \<open>doc.items\<close>.\<close>

definition row_step ::
  "(string \<Rightarrow> pyfloat option) \<Rightarrow> (string \<rightharpoonup> nat) \<Rightarrow> grid \<Rightarrow> nat \<Rightarrow> line_item list
     \<Rightarrow> py_exc + line_item list" where
  "row_step fl col_map grid row_idx its =
    and_then (py_nth grid row_idx) (\<lambda>row.
    if \<not> list_ex str_truthy row then Inr its
    else and_then (make_item fl col_map row_idx row) (\<lambda>item.
         if str_truthy (item_name item) \<or> str_truthy (item_id item)
         then Inr (its @ [item]) else Inr its))"

definition parse_items_table ::
  "(string \<Rightarrow> pyfloat option) \<Rightarrow> delivery_note \<Rightarrow> json \<Rightarrow> py_exc + delivery_note" where
  "parse_items_table fl d table =
    and_then (py_get table ''rowCount'' (JInt 0)) (\<lambda>row_count.
    and_then (py_get table ''columnCount'' (JInt 0)) (\<lambda>column_count.
    and_then (py_get table ''cells'' (JArr [])) (\<lambda>cells.
    if py_eq row_count (JInt 0) \<or> py_eq column_count (JInt 0) then Inr (d\<lparr>items := []\<rparr>)
    else
    and_then (new_grid row_count column_count) (\<lambda>grid0.
    and_then (py_iter cells) (\<lambda>cl.
    and_then (fill_grid row_count column_count cl grid0) (\<lambda>grid.
    and_then (py_nth grid 0) (\<lambda>row0.
    let headers = map header_text row0;
        col_map = build_col_map headers
    in and_then (py_range row_count) (\<lambda>nr.
       and_then (for_each (row_step fl col_map grid) [1..<nr] []) (\<lambda>its.
       Inr (d\<lparr>items := its\<rparr>))))))))))"

subsection \<open>The response\<close>

text \<open>
  The body of the \<open>try\<close> block, and the function with its handler, which turns every
  exception of the body into \<open>FailedToParse\<close>. A raise aborts the job before the document
  is saved (\<open>parse_delivery_note_image\<close>), so the result of a raise is the error alone.
\<close>

definition parse_body ::
  "(string \<Rightarrow> pyfloat option) \<Rightarrow> delivery_note \<Rightarrow> json \<Rightarrow> py_exc + delivery_note" where
  "parse_body fl d azure_result =
    and_then (py_get azure_result ''analyzeResult'' (JObj [])) (\<lambda>analyze_result.
    and_then (extract_key_value_pairs analyze_result) (\<lambda>key_value_pairs.
    let d1 = update_header_fields key_value_pairs d
    in and_then (py_get analyze_result ''tables'' (JArr [])) (\<lambda>tables.
       if truthy tables
       then and_then (py_first tables) (parse_items_table fl d1)
       else Inr d1)))"

definition parse_azure_response ::
  "(string \<Rightarrow> pyfloat option) \<Rightarrow> delivery_note \<Rightarrow> json \<Rightarrow> error + delivery_note" where
  "parse_azure_response fl d azure_result =
    (case parse_body fl d azure_result of
       Inl e \<Rightarrow> Inl (FailedToParse e)
     | Inr d' \<Rightarrow> Inr d')"

text \<open>
  The record that \<open>whatsapp_inbound\<close> creates (api.py): status \<open>Image Received\<close>, nothing
  else of the modelled fields set.
\<close>

definition new_delivery_note :: delivery_note where
  "new_delivery_note =
    \<lparr>header = Map.empty, status = ''Image Received'', payment_type = None, items = [],
     driver_confirmed_at = None, delivered_at = None\<rparr>"

text \<open>A line item, for the examples.\<close>

definition sample_item :: line_item where
  "sample_item =
    \<lparr>sr_no = 1, item_id = Some ''A-100'', flexi_code = None, item_name = Some ''Chair'',
     item_name_short = None, unit = Some ''PCS'', qty = Finite 2, cartons = Finite 0\<rparr>"

section \<open>The documented shape of an analysis result\<close>

text \<open>
  The shape that the service documents for its result: objects and lists where the
  interface puts them, a string wherever a key, a value or a cell carries content, counts
  and cell indices that are integers from zero up. Every key may be missing.
\<close>

definition content_ok :: "json option \<Rightarrow> bool" where
  "content_ok c = (case c of None \<Rightarrow> True | Some (JStr s) \<Rightarrow> True | Some _ \<Rightarrow> False)"




definition count_ok :: "json option \<Rightarrow> bool" where
  "count_ok n = (case n of None \<Rightarrow> True | Some (JInt k) \<Rightarrow> 0 \<le> k | Some _ \<Rightarrow> False)"

definition cell_ok :: "json \<Rightarrow> bool" where
  "cell_ok cell =
    (case cell of
       JObj c \<Rightarrow>
         count_ok (map_of c ''rowIndex'') \<and> count_ok (map_of c ''columnIndex'') \<and>
         content_ok (map_of c ''content'')
     | _ \<Rightarrow> False)"

definition table_ok :: "json \<Rightarrow> bool" where
  "table_ok table =
    (case table of
       JObj c \<Rightarrow>
         count_ok (map_of c ''rowCount'') \<and> count_ok (map_of c ''columnCount'') \<and>
         (case map_of c ''cells'' of
            None \<Rightarrow> True
          | Some (JArr cells) \<Rightarrow> list_all cell_ok cells
          | Some _ \<Rightarrow> False)
     | _ \<Rightarrow> False)"



text \<open>
  A second condition, on the texts and not on the shape: no cell of the first table has a
  text that \<open>fl\<close> reads as an infinite float. An empty text is never read as a number.
\<close>

definition finite_text :: "(string \<Rightarrow> pyfloat option) \<Rightarrow> string \<Rightarrow> bool" where
  "finite_text fl s =
    (s = [] \<or> (fl (remove_commas s) \<noteq> Some PosInf \<and> fl (remove_commas s) \<noteq> Some NegInf))"

definition cell_finite :: "(string \<Rightarrow> pyfloat option) \<Rightarrow> json \<Rightarrow> bool" where
  "cell_finite fl cell =
    (case cell of
       JObj c \<Rightarrow>
         (case map_of c ''content'' of
            Some (JStr s) \<Rightarrow> finite_text fl (py_strip s)
          | _ \<Rightarrow> True)
     | _ \<Rightarrow> True)"

definition table_finite :: "(string \<Rightarrow> pyfloat option) \<Rightarrow> json \<Rightarrow> bool" where
  "table_finite fl table =
    (case table of
       JObj c \<Rightarrow>
         (case map_of c ''cells'' of
            Some (JArr cells) \<Rightarrow> list_all (cell_finite fl) cells
          | _ \<Rightarrow> True)
     | _ \<Rightarrow> True)"



text \<open>
  An \<open>fl\<close> for the examples. It agrees with Python's \<open>float\<close> on the strings the
  examples use: a string of decimal digits reads as that number, \<open>inf\<close> as the positive
  infinity, and a string with a letter other than these is a \<open>ValueError\<close>.
\<close>

fun digits_value :: "string \<Rightarrow> nat \<Rightarrow> nat option" where
  "digits_value [] acc = Some acc"
| "digits_value (c # cs) acc =
     (if c \<in> set ''0123456789''
      then digits_value cs (10 * acc + (of_char c - 48))
      else None)"

definition example_float :: "string \<Rightarrow> pyfloat option" where
  "example_float s =
    (if s = ''inf'' then Some PosInf
     else if s = [] then None
     else map_option (\<lambda>n. Finite (of_nat n)) (digits_value s 0))"

text \<open>A table cell as the analysis service sends it.\<close>

definition table_cell :: "int \<Rightarrow> int \<Rightarrow> string \<Rightarrow> json" where
  "table_cell r c s =
    JObj [(''rowIndex'', JInt r), (''columnIndex'', JInt c), (''content'', JStr s)]"

text \<open>
  Two results for the examples: a table whose second and fourth headers match no rule, and
  a key/value pair whose label contains \<open>phone\<close> without being equal to it.
\<close>

definition unlabelled_table :: json where
  "unlabelled_table =
    JObj [(''rowCount'', JInt 2), (''columnCount'', JInt 4),
          (''cells'', JArr [table_cell 0 0 ''Sr'', table_cell 0 1 ''Code'',
                            table_cell 0 2 ''Item Name'', table_cell 0 3 ''Amount'',
                            table_cell 1 0 ''7'', table_cell 1 1 ''X1'',
                            table_cell 1 2 ''Chair'', table_cell 1 3 ''5''])]"

definition phone_result :: json where
  "phone_result =
    JObj [(''analyzeResult'', JObj [(''keyValuePairs'', JArr
      [JObj [(''key'', JObj [(''content'', JStr ''Customer Phone'')]),
             (''value'', JObj [(''content'', JStr ''0501234567'')])]])])]"




text \<open>
  A table of the documented shape whose sequence-number cell reads \<open>inf\<close>, and a stored
  record that the driver has confirmed, with one item.
\<close>

definition inf_table :: json where
  "inf_table =
    JObj [(''rowCount'', JInt 2), (''columnCount'', JInt 1),
          (''cells'', JArr [table_cell 0 0 ''Sr'', table_cell 1 0 ''inf''])]"

definition confirmed_note :: delivery_note where
  "confirmed_note =
    \<lparr>header = Map.empty, status = ''Confirmed by Driver'', payment_type = None,
     items = [sample_item], driver_confirmed_at = Some ''2025-01-15 10:00:00'',
     delivered_at = None\<rparr>"

section \<open>Properties of the lifecycle\<close>

subsection \<open>The status-flow check and the save\<close>

lemma allowed_iff_edge:
  "b \<in> set (case map_of valid_status_flow a of None \<Rightarrow> [] | Some x \<Rightarrow> x)
     \<longleftrightarrow> (a, b) \<in> transition_edges"
  by (auto simp: valid_status_flow_def transition_edges_def split: if_splits)

lemma validate_status_flow_existing:
  "validate_status_flow False (Some old) self =
    (if status old = status self \<or> (status old, status self) \<in> transition_edges
     then Inr () else Inl (InvalidTransition (status old) (status self)))"
  unfolding validate_status_flow_def Let_def using allowed_iff_edge[of "status self" "status old"]
  by simp

lemma save_flow_error:
  "validate_status_flow (stored s = None) (stored s) (doc s) = Inl e \<Longrightarrow> save s = (Inl e, s)"
  by (simp add: save_def validate_def)

lemma save_no_items:
  "validate_status_flow (stored s = None) (stored s) (doc s) = Inr () \<Longrightarrow>
   status (doc s) \<in> set confirmation_statuses \<Longrightarrow> items (doc s) = [] \<Longrightarrow>
   save s = (Inl NoItemsToConfirm, s)"
  by (simp add: save_def validate_def validate_items_for_confirmation_def)

lemma validate_payment_type_status [simp]:
  "status (validate_payment_type d) = status d"
  by (simp add: validate_payment_type_def)

lemma validate_payment_type_delivered_at [simp]:
  "delivered_at (validate_payment_type d) = delivered_at d"
  by (simp add: validate_payment_type_def)


lemma validate_fields:
  assumes "validate n old d = Inr d'"
  shows "status d' = status d" and "delivered_at d' = delivered_at d"
    and "driver_confirmed_at d' = driver_confirmed_at d"
    and "header d' = header d"
    and "payment_type d' = payment_type (validate_payment_type d)"
  using assms
  by (auto simp: validate_def generate_short_item_names_def validate_payment_type_def
      split: sum.splits if_splits)

lemma save_cases:
  "(\<exists>e. save s = (Inl e, s)) \<or>
   (\<exists>d. validate (stored s = None) (stored s) (doc s) = Inr d \<and>
        save s = (Inr (), s\<lparr>doc := d, stored := Some d\<rparr>))"
  by (cases "validate (stored s = None) (stored s) (doc s)") (simp_all add: save_def)

subsection \<open>The claims about the lifecycle\<close>

text \<open>
  Claim C4. A save of a stored record whose status differs from the stored status passes
  the status-flow check exactly when the pair (stored status, new status) is an edge of
  the transition graph; otherwise the save fails with \<open>InvalidTransition\<close> carrying that
  pair and changes nothing. The pair is taken from the stored copy. \<open>Image Received\<close> to
  \<open>Confirmed by Driver\<close> is not an edge.
\<close>

theorem status_change_needs_edge:
  assumes "stored s = Some old" and "status old \<noteq> status (doc s)"
  shows "validate_status_flow (stored s = None) (stored s) (doc s) =
           (if (status old, status (doc s)) \<in> transition_edges then Inr ()
            else Inl (InvalidTransition (status old) (status (doc s))))
       \<and> ((status old, status (doc s)) \<notin> transition_edges \<longrightarrow>
            save s = (Inl (InvalidTransition (status old) (status (doc s))), s))
       \<and> ((status old, status (doc s)) \<in> transition_edges \<longrightarrow>
            (\<forall>a b. fst (save s) \<noteq> Inl (InvalidTransition a b)))
       \<and> (''Image Received'', ''Confirmed by Driver'') \<notin> transition_edges"
proof -
  have flow: "validate_status_flow (stored s = None) (stored s) (doc s) =
           (if (status old, status (doc s)) \<in> transition_edges then Inr ()
            else Inl (InvalidTransition (status old) (status (doc s))))"
    using assms by (simp add: validate_status_flow_existing)
  have rej: "(status old, status (doc s)) \<notin> transition_edges \<Longrightarrow>
            save s = (Inl (InvalidTransition (status old) (status (doc s))), s)"
    using flow by (simp add: save_def validate_def)
  have acc: "(status old, status (doc s)) \<in> transition_edges \<Longrightarrow>
            fst (save s) \<noteq> Inl (InvalidTransition a b)" for a b
    using flow
    by (simp add: save_def validate_def validate_items_for_confirmation_def split: sum.splits)
  have "(''Image Received'', ''Confirmed by Driver'') \<notin> transition_edges"
    by (simp add: transition_edges_def)
  with flow rej acc show ?thesis by blast
qed

theorem status_change_needs_edge_witness:
  "stored \<lparr>doc = new_delivery_note\<lparr>status := ''Confirmed by Driver''\<rparr>,
           stored = Some new_delivery_note\<rparr> = Some new_delivery_note
   \<and> status new_delivery_note \<noteq> ''Confirmed by Driver''
   \<and> save \<lparr>doc = new_delivery_note\<lparr>status := ''Confirmed by Driver''\<rparr>,
           stored = Some new_delivery_note\<rparr>
     = (Inl (InvalidTransition ''Image Received'' ''Confirmed by Driver''),
        \<lparr>doc = new_delivery_note\<lparr>status := ''Confirmed by Driver''\<rparr>,
         stored = Some new_delivery_note\<rparr>)"
  using status_change_needs_edge
    [of "\<lparr>doc = new_delivery_note\<lparr>status := ''Confirmed by Driver''\<rparr>,
          stored = Some new_delivery_note\<rparr>" new_delivery_note]
  by (simp add: new_delivery_note_def)

text \<open>
  Claim C5, as stated, fails: \<open>set_driver_confirmed\<close> on a stored record in
  \<open>Image Received\<close> with no items raises \<open>InvalidTransition\<close>, not \<open>NoItemsToConfirm\<close>,
  because \<open>validate\<close> runs the status-flow check first.
\<close>

theorem empty_items_counterexample:
  "set_driver_confirmed ''2025-01-15 10:30:00''
      \<lparr>doc = new_delivery_note, stored = Some new_delivery_note\<rparr>
   = (Inl (InvalidTransition ''Image Received'' ''Confirmed by Driver''),
      \<lparr>doc = new_delivery_note\<lparr>status := ''Confirmed by Driver'',
            driver_confirmed_at := Some ''2025-01-15 10:30:00''\<rparr>,
       stored = Some new_delivery_note\<rparr>)
   \<and> items new_delivery_note = []
   \<and> InvalidTransition ''Image Received'' ''Confirmed by Driver'' \<noteq> NoItemsToConfirm"
  by (simp add: set_driver_confirmed_def save_def validate_def validate_status_flow_def
      valid_status_flow_def new_delivery_note_def)

text \<open>
  Claim C5, amended. A save in \<open>Confirmed by Driver\<close>, \<open>Delivered - Cash Received\<close> or
  \<open>Delivered - Credit\<close> with an empty item list always fails and changes nothing: with
  the error of the status-flow check when that check fails (the status change is not an
  edge), and with \<open>NoItemsToConfirm\<close> otherwise (a legal edge, or a new record).
\<close>

theorem empty_items_rejected:
  assumes "status (doc s) \<in> set confirmation_statuses" and "items (doc s) = []"
  shows "save s =
          (case validate_status_flow (stored s = None) (stored s) (doc s) of
             Inl e \<Rightarrow> (Inl e, s) | Inr _ \<Rightarrow> (Inl NoItemsToConfirm, s))
       \<and> (\<forall>old. stored s = Some old \<and> status old \<noteq> status (doc s) \<and>
                 (status old, status (doc s)) \<in> transition_edges \<longrightarrow>
              save s = (Inl NoItemsToConfirm, s))
       \<and> (\<forall>old. stored s = Some old \<and> status old \<noteq> status (doc s) \<and>
                 (status old, status (doc s)) \<notin> transition_edges \<longrightarrow>
              save s = (Inl (InvalidTransition (status old) (status (doc s))), s))
       \<and> (stored s = None \<longrightarrow> save s = (Inl NoItemsToConfirm, s))"
proof -
  have a: "save s =
          (case validate_status_flow (stored s = None) (stored s) (doc s) of
             Inl e \<Rightarrow> (Inl e, s) | Inr _ \<Rightarrow> (Inl NoItemsToConfirm, s))"
    using assms save_flow_error[of s] save_no_items[of s]
    by (cases "validate_status_flow (stored s = None) (stored s) (doc s)") simp_all
  have b: "save s = (Inl NoItemsToConfirm, s)"
    if "stored s = Some old" "status old \<noteq> status (doc s)"
       "(status old, status (doc s)) \<in> transition_edges" for old
    using that a by (simp add: validate_status_flow_existing)
  have c: "save s = (Inl (InvalidTransition (status old) (status (doc s))), s)"
    if "stored s = Some old" "status old \<noteq> status (doc s)"
       "(status old, status (doc s)) \<notin> transition_edges" for old
    using that a by (simp add: validate_status_flow_existing)
  have d: "stored s = None \<Longrightarrow> save s = (Inl NoItemsToConfirm, s)"
    using a by (simp add: validate_status_flow_def)
  from a b c d show ?thesis by blast
qed

theorem empty_items_rejected_witness:
  "status (doc \<lparr>doc = new_delivery_note\<lparr>status := ''Confirmed by Driver''\<rparr>,
                stored = Some (new_delivery_note\<lparr>status := ''Awaiting Driver Confirmation''\<rparr>)\<rparr>)
     \<in> set confirmation_statuses
   \<and> items (doc \<lparr>doc = new_delivery_note\<lparr>status := ''Confirmed by Driver''\<rparr>,
                stored = Some (new_delivery_note\<lparr>status := ''Awaiting Driver Confirmation''\<rparr>)\<rparr>) = []
   \<and> save \<lparr>doc = new_delivery_note\<lparr>status := ''Confirmed by Driver''\<rparr>,
           stored = Some (new_delivery_note\<lparr>status := ''Awaiting Driver Confirmation''\<rparr>)\<rparr>
      = (Inl NoItemsToConfirm,
         \<lparr>doc = new_delivery_note\<lparr>status := ''Confirmed by Driver''\<rparr>,
          stored = Some (new_delivery_note\<lparr>status := ''Awaiting Driver Confirmation''\<rparr>)\<rparr>)"
proof -
  let ?s = "\<lparr>doc = new_delivery_note\<lparr>status := ''Confirmed by Driver''\<rparr>,
            stored = Some (new_delivery_note\<lparr>status := ''Awaiting Driver Confirmation''\<rparr>)\<rparr>"
  have h1: "status (doc ?s) \<in> set confirmation_statuses"
    by (simp add: confirmation_statuses_def)
  have h2: "items (doc ?s) = []"
    by (simp add: new_delivery_note_def)
  have e: "stored ?s = Some (new_delivery_note\<lparr>status := ''Awaiting Driver Confirmation''\<rparr>)
      \<and> status (new_delivery_note\<lparr>status := ''Awaiting Driver Confirmation''\<rparr>) \<noteq> status (doc ?s)
      \<and> (status (new_delivery_note\<lparr>status := ''Awaiting Driver Confirmation''\<rparr>), status (doc ?s))
            \<in> transition_edges"
    by (simp add: transition_edges_def)
  from empty_items_rejected [OF h1 h2] e have "save ?s = (Inl NoItemsToConfirm, ?s)"
    by blast
  with h1 h2 show ?thesis by blast
qed

text \<open>
  Claim C6. \<open>set_delivered\<close> with \<open>Cash\<close> leaves the document in memory with status
  \<open>Delivered - Cash Received\<close>, payment type \<open>Cash\<close> and \<open>delivered_at\<close> stamped, and
  when the save succeeds that document is the stored one; the same for \<open>Credit\<close>. On a
  stored record in \<open>Confirmed by Driver\<close> with at least one item the save does succeed,
  and the stored record is the old one with the new status, payment type and stamp (and
  the short item names filled in). A call that raises stores nothing. With any other
  payment type it raises \<open>InvalidPaymentType\<close> and neither the document nor storage
  changes.
\<close>

theorem set_delivered_effect:
  "(p = ''Cash'' \<longrightarrow>
      status (doc (snd (set_delivered now p s))) = ''Delivered - Cash Received'' \<and>
      payment_type (doc (snd (set_delivered now p s))) = Some ''Cash'' \<and>
      delivered_at (doc (snd (set_delivered now p s))) = Some now \<and>
      (fst (set_delivered now p s) = Inr () \<longrightarrow>
         stored (snd (set_delivered now p s)) = Some (doc (snd (set_delivered now p s)))))
   \<and> (p = ''Credit'' \<longrightarrow>
      status (doc (snd (set_delivered now p s))) = ''Delivered - Credit'' \<and>
      payment_type (doc (snd (set_delivered now p s))) = Some ''Credit'' \<and>
      delivered_at (doc (snd (set_delivered now p s))) = Some now \<and>
      (fst (set_delivered now p s) = Inr () \<longrightarrow>
         stored (snd (set_delivered now p s)) = Some (doc (snd (set_delivered now p s)))))
   \<and> (p \<noteq> ''Cash'' \<and> p \<noteq> ''Credit'' \<longrightarrow>
      set_delivered now p s = (Inl (InvalidPaymentType p), s))
   \<and> (stored s = Some old \<and> status old = ''Confirmed by Driver'' \<and> items (doc s) \<noteq> [] \<longrightarrow>
      set_delivered now ''Cash'' s =
        (Inr (),
         \<lparr>doc = generate_short_item_names
                  ((doc s)\<lparr>status := ''Delivered - Cash Received'',
                            payment_type := Some ''Cash'', delivered_at := Some now\<rparr>),
          stored = Some (generate_short_item_names
                  ((doc s)\<lparr>status := ''Delivered - Cash Received'',
                            payment_type := Some ''Cash'', delivered_at := Some now\<rparr>))\<rparr>) \<and>
      set_delivered now ''Credit'' s =
        (Inr (),
         \<lparr>doc = generate_short_item_names
                  ((doc s)\<lparr>status := ''Delivered - Credit'',
                            payment_type := Some ''Credit'', delivered_at := Some now\<rparr>),
          stored = Some (generate_short_item_names
                  ((doc s)\<lparr>status := ''Delivered - Credit'',
                            payment_type := Some ''Credit'', delivered_at := Some now\<rparr>))\<rparr>))
   \<and> (fst (set_delivered now p s) \<noteq> Inr () \<longrightarrow>
        stored (snd (set_delivered now p s)) = stored s)"
proof -
  have cash: "status (doc (snd (save (s\<lparr>doc := d\<rparr>)))) = status d
      \<and> payment_type (doc (snd (save (s\<lparr>doc := d\<rparr>)))) = payment_type (validate_payment_type d)
      \<and> delivered_at (doc (snd (save (s\<lparr>doc := d\<rparr>)))) = delivered_at d
      \<and> (fst (save (s\<lparr>doc := d\<rparr>)) = Inr () \<longrightarrow>
           stored (snd (save (s\<lparr>doc := d\<rparr>))) = Some (doc (snd (save (s\<lparr>doc := d\<rparr>)))))"
    if "status d = ''Delivered - Cash Received'' \<or> status d = ''Delivered - Credit''"
       "status d = ''Delivered - Cash Received'' \<longrightarrow> payment_type d = Some ''Cash''"
       "status d = ''Delivered - Credit'' \<longrightarrow> payment_type d = Some ''Credit''"
       for d
    using save_cases[of "s\<lparr>doc := d\<rparr>"] that
    by (auto dest: validate_fields simp: validate_payment_type_def)
  have first: "(p = ''Cash'' \<longrightarrow>
      status (doc (snd (set_delivered now p s))) = ''Delivered - Cash Received'' \<and>
      payment_type (doc (snd (set_delivered now p s))) = Some ''Cash'' \<and>
      delivered_at (doc (snd (set_delivered now p s))) = Some now \<and>
      (fst (set_delivered now p s) = Inr () \<longrightarrow>
         stored (snd (set_delivered now p s)) = Some (doc (snd (set_delivered now p s)))))
   \<and> (p = ''Credit'' \<longrightarrow>
      status (doc (snd (set_delivered now p s))) = ''Delivered - Credit'' \<and>
      payment_type (doc (snd (set_delivered now p s))) = Some ''Credit'' \<and>
      delivered_at (doc (snd (set_delivered now p s))) = Some now \<and>
      (fst (set_delivered now p s) = Inr () \<longrightarrow>
         stored (snd (set_delivered now p s)) = Some (doc (snd (set_delivered now p s)))))
   \<and> (p \<noteq> ''Cash'' \<and> p \<noteq> ''Credit'' \<longrightarrow>
      set_delivered now p s = (Inl (InvalidPaymentType p), s))"
    using cash[of "(doc s)\<lparr>status := ''Delivered - Cash Received'', payment_type := Some ''Cash'', delivered_at := Some now\<rparr>"]
       cash[of "(doc s)\<lparr>status := ''Delivered - Credit'', payment_type := Some ''Credit'', delivered_at := Some now\<rparr>"]
    by (simp add: set_delivered_def validate_payment_type_def)
  have ok: "save (s\<lparr>doc := d\<rparr>) =
              (Inr (), \<lparr>doc = generate_short_item_names d,
                       stored = Some (generate_short_item_names d)\<rparr>)"
    if "stored s = Some old" "status old = ''Confirmed by Driver''" "items d \<noteq> []"
       "(status d = ''Delivered - Cash Received'' \<and> payment_type d = Some ''Cash'') \<or>
        (status d = ''Delivered - Credit'' \<and> payment_type d = Some ''Credit'')"
    for d
  proof -
    have e: "(status old, status d) \<in> transition_edges"
      using that(2,4) by (auto simp: transition_edges_def)
    have v: "validate_payment_type d = d"
      using that(4) by (auto simp: validate_payment_type_def)
    have "validate False (Some old) d = Inr (generate_short_item_names d)"
      using e that(3) v
      by (simp add: validate_def validate_status_flow_existing
          validate_items_for_confirmation_def)
    then show ?thesis
      using that(1) by (simp add: save_def)
  qed
  have second: "set_delivered now ''Cash'' s =
        (Inr (),
         \<lparr>doc = generate_short_item_names
                  ((doc s)\<lparr>status := ''Delivered - Cash Received'',
                            payment_type := Some ''Cash'', delivered_at := Some now\<rparr>),
          stored = Some (generate_short_item_names
                  ((doc s)\<lparr>status := ''Delivered - Cash Received'',
                            payment_type := Some ''Cash'', delivered_at := Some now\<rparr>))\<rparr>) \<and>
      set_delivered now ''Credit'' s =
        (Inr (),
         \<lparr>doc = generate_short_item_names
                  ((doc s)\<lparr>status := ''Delivered - Credit'',
                            payment_type := Some ''Credit'', delivered_at := Some now\<rparr>),
          stored = Some (generate_short_item_names
                  ((doc s)\<lparr>status := ''Delivered - Credit'',
                            payment_type := Some ''Credit'', delivered_at := Some now\<rparr>))\<rparr>)"
    if "stored s = Some old \<and> status old = ''Confirmed by Driver'' \<and> items (doc s) \<noteq> []"
    using that
      ok[of "(doc s)\<lparr>status := ''Delivered - Cash Received'', payment_type := Some ''Cash'', delivered_at := Some now\<rparr>"]
      ok[of "(doc s)\<lparr>status := ''Delivered - Credit'', payment_type := Some ''Credit'', delivered_at := Some now\<rparr>"]
    by (simp add: set_delivered_def)
  have third: "stored (snd (set_delivered now p s)) = stored s"
    if "fst (set_delivered now p s) \<noteq> Inr ()"
  proof -
    have "stored (snd (save t)) = stored t" if "fst (save t) \<noteq> Inr ()" for t
      using that save_cases[of t] by auto
    from this[of "s\<lparr>doc := (doc s)\<lparr>status := ''Delivered - Cash Received'', payment_type := Some ''Cash'', delivered_at := Some now\<rparr>\<rparr>"]
         this[of "s\<lparr>doc := (doc s)\<lparr>status := ''Delivered - Credit'', payment_type := Some ''Credit'', delivered_at := Some now\<rparr>\<rparr>"]
         that
    show ?thesis
      by (auto simp: set_delivered_def split: if_splits)
  qed
  from first second third show ?thesis by blast
qed

theorem set_delivered_effect_witness:
  "stored \<lparr>doc = confirmed_note, stored = Some confirmed_note\<rparr> = Some confirmed_note
   \<and> status confirmed_note = ''Confirmed by Driver''
   \<and> items (doc \<lparr>doc = confirmed_note, stored = Some confirmed_note\<rparr>) \<noteq> []
   \<and> set_delivered ''2025-01-15 10:30:00'' ''Cash''
        \<lparr>doc = confirmed_note, stored = Some confirmed_note\<rparr>
      = (Inr (),
         \<lparr>doc = \<lparr>header = Map.empty, status = ''Delivered - Cash Received'',
                  payment_type = Some ''Cash'',
                  items = [sample_item\<lparr>item_name_short := Some ''Chair''\<rparr>],
                  driver_confirmed_at = Some ''2025-01-15 10:00:00'',
                  delivered_at = Some ''2025-01-15 10:30:00''\<rparr>,
          stored = Some \<lparr>header = Map.empty, status = ''Delivered - Cash Received'',
                  payment_type = Some ''Cash'',
                  items = [sample_item\<lparr>item_name_short := Some ''Chair''\<rparr>],
                  driver_confirmed_at = Some ''2025-01-15 10:00:00'',
                  delivered_at = Some ''2025-01-15 10:30:00''\<rparr>\<rparr>)
   \<and> ''Bogus'' \<noteq> ''Cash'' \<and> ''Bogus'' \<noteq> ''Credit''
   \<and> set_delivered ''2025-01-15 10:30:00'' ''Bogus''
        \<lparr>doc = confirmed_note, stored = Some confirmed_note\<rparr>
      = (Inl (InvalidPaymentType ''Bogus''),
         \<lparr>doc = confirmed_note, stored = Some confirmed_note\<rparr>)
   \<and> fst (set_delivered ''2025-01-15 10:30:00'' ''Cash''
        \<lparr>doc = new_delivery_note, stored = Some new_delivery_note\<rparr>) \<noteq> Inr ()
   \<and> stored (snd (set_delivered ''2025-01-15 10:30:00'' ''Cash''
        \<lparr>doc = new_delivery_note, stored = Some new_delivery_note\<rparr>))
      = Some new_delivery_note
   \<and> status (doc (snd (set_delivered ''2025-01-15 10:30:00'' ''Cash''
        \<lparr>doc = new_delivery_note, stored = Some new_delivery_note\<rparr>)))
      = ''Delivered - Cash Received''"
proof -
  let ?now = "''2025-01-15 10:30:00''"
  let ?s = "\<lparr>doc = confirmed_note, stored = Some confirmed_note\<rparr>"
  let ?t = "\<lparr>doc = new_delivery_note, stored = Some new_delivery_note\<rparr>"
  have h: "stored ?s = Some confirmed_note" "status confirmed_note = ''Confirmed by Driver''"
    "items (doc ?s) \<noteq> []"
    by (simp_all add: confirmed_note_def)
  from h set_delivered_effect [where s = ?s and old = confirmed_note and now = ?now]
  have "set_delivered ?now ''Cash'' ?s =
        (Inr (),
         \<lparr>doc = generate_short_item_names
                  ((doc ?s)\<lparr>status := ''Delivered - Cash Received'',
                            payment_type := Some ''Cash'', delivered_at := Some ?now\<rparr>),
          stored = Some (generate_short_item_names
                  ((doc ?s)\<lparr>status := ''Delivered - Cash Received'',
                            payment_type := Some ''Cash'', delivered_at := Some ?now\<rparr>))\<rparr>)"
    by blast
  then have a: "set_delivered ?now ''Cash'' ?s
      = (Inr (),
         \<lparr>doc = \<lparr>header = Map.empty, status = ''Delivered - Cash Received'',
                  payment_type = Some ''Cash'',
                  items = [sample_item\<lparr>item_name_short := Some ''Chair''\<rparr>],
                  driver_confirmed_at = Some ''2025-01-15 10:00:00'',
                  delivered_at = Some ?now\<rparr>,
          stored = Some \<lparr>header = Map.empty, status = ''Delivered - Cash Received'',
                  payment_type = Some ''Cash'',
                  items = [sample_item\<lparr>item_name_short := Some ''Chair''\<rparr>],
                  driver_confirmed_at = Some ''2025-01-15 10:00:00'',
                  delivered_at = Some ?now\<rparr>\<rparr>)"
    by (simp add: confirmed_note_def generate_short_item_names_def short_item_name_def
        sample_item_def str_truthy_def Let_def)
  have b: "set_delivered ?now ''Bogus'' ?s = (Inl (InvalidPaymentType ''Bogus''), ?s)"
    using set_delivered_effect [where p = "''Bogus''" and now = ?now and s = ?s] by simp
  have c: "fst (set_delivered ?now ''Cash'' ?t) \<noteq> Inr ()"
    by (simp add: set_delivered_def save_def validate_def validate_status_flow_existing
        transition_edges_def new_delivery_note_def)
  with set_delivered_effect [where p = "''Cash''" and now = ?now and s = ?t]
  have d: "stored (snd (set_delivered ?now ''Cash'' ?t)) = Some new_delivery_note"
    and e: "status (doc (snd (set_delivered ?now ''Cash'' ?t))) = ''Delivered - Cash Received''"
    by simp_all
  from h a b c d e show ?thesis by simp
qed

text \<open>
  Claim C10. For a record that is not yet stored the status-flow check returns at once:
  the first save never raises \<open>InvalidTransition\<close>, whatever the status, and when the
  item check passes (the payment-type step never raises) the record is stored with the
  status it was given.
\<close>

theorem new_record_skips_status_flow:
  assumes "stored s = None"
  shows "validate_status_flow (stored s = None) (stored s) (doc s) = Inr ()
       \<and> (\<forall>a b. fst (save s) \<noteq> Inl (InvalidTransition a b))
       \<and> (validate_items_for_confirmation (doc s) = Inr () \<longrightarrow>
            fst (save s) = Inr () \<and>
            (\<exists>d. stored (snd (save s)) = Some d \<and> status d = status (doc s)))"
proof -
  have flow: "validate_status_flow (stored s = None) (stored s) (doc s) = Inr ()"
    using assms by (simp add: validate_status_flow_def)
  have a: "fst (save s) \<noteq> Inl (InvalidTransition a b)" for a b
    using flow
    by (simp add: save_def validate_def validate_items_for_confirmation_def split: sum.splits)
  have b: "fst (save s) = Inr () \<and>
            (\<exists>d. stored (snd (save s)) = Some d \<and> status d = status (doc s))"
    if "validate_items_for_confirmation (doc s) = Inr ()"
    using flow that by (simp add: save_def validate_def generate_short_item_names_def)
  from flow a b show ?thesis by blast
qed

theorem new_record_skips_status_flow_witness:
  "stored \<lparr>doc = new_delivery_note\<lparr>status := ''Delivered - Credit'', items := [sample_item]\<rparr>,
           stored = None\<rparr> = None
   \<and> fst (save \<lparr>doc = new_delivery_note\<lparr>status := ''Delivered - Credit'', items := [sample_item]\<rparr>,
                stored = None\<rparr>) = Inr ()
   \<and> (\<exists>d. stored (snd (save \<lparr>doc = new_delivery_note\<lparr>status := ''Delivered - Credit'',
                                    items := [sample_item]\<rparr>, stored = None\<rparr>)) = Some d
          \<and> status d = ''Delivered - Credit'')"
  using new_record_skips_status_flow
    [of "\<lparr>doc = new_delivery_note\<lparr>status := ''Delivered - Credit'', items := [sample_item]\<rparr>,
          stored = None\<rparr>"]
  by (simp add: validate_items_for_confirmation_def)

section \<open>Properties of the extraction\<close>

subsection \<open>Sequencing, and what the extraction leaves alone\<close>

lemma and_then_Inr:
  "and_then m f = Inr y \<longleftrightarrow> (\<exists>x. m = Inr x \<and> f x = Inr y)"
  by (cases m) (simp_all add: and_then_def)

lemma and_then_Inr_simp [simp]: "and_then (Inr x) f = f x"
  by (simp add: and_then_def)

lemma and_then_Inl_simp [simp]: "and_then (Inl e) f = Inl e"
  by (simp add: and_then_def)



lemma parse_items_table_frame:
  assumes "parse_items_table fl d table = Inr d'"
  shows "header d' = header d" and "status d' = status d"
    and "payment_type d' = payment_type d"
    and "driver_confirmed_at d' = driver_confirmed_at d"
    and "delivered_at d' = delivered_at d"
  using assms
  by (auto simp: parse_items_table_def and_then_Inr Let_def split: if_splits)

lemma parse_body_header:
  assumes "parse_body fl d r = Inr d'"
  shows "\<exists>pairs. header d' = header (update_header_fields pairs d)"
  using assms
  by (auto simp: parse_body_def and_then_Inr Let_def
      dest: parse_items_table_frame(1) split: if_splits)


lemma parse_azure_response_Inr:
  "parse_azure_response fl d r = Inr d' \<longleftrightarrow> parse_body fl d r = Inr d'"
  by (simp add: parse_azure_response_def split: sum.splits)

subsection \<open>The parts of an item\<close>

lemma make_item_Inr:
  assumes "make_item fl col_map row_idx row = Inr item"
  obtains a b c d e f g where
    "(if col_map ''sr_no'' \<noteq> None
      then and_then (col_cell col_map ''sr_no'' 0 row) (safe_int fl)
      else Inr (int row_idx)) = Inr a"
    "(if col_map ''item_id'' \<noteq> None
      then col_cell col_map ''item_id'' 1 row else Inr (Some [])) = Inr b"
    "(if col_map ''flexi_code'' \<noteq> None
      then col_cell col_map ''flexi_code'' (- 1) row else Inr (Some [])) = Inr c"
    "(if col_map ''item_name'' \<noteq> None
      then col_cell col_map ''item_name'' 2 row else Inr (Some [])) = Inr d"
    "(if col_map ''unit'' \<noteq> None
      then col_cell col_map ''unit'' (- 1) row else Inr (Some [])) = Inr e"
    "(if col_map ''qty'' \<noteq> None
      then and_then (col_cell col_map ''qty'' 3 row) (\<lambda>c. Inr (safe_float fl c))
      else Inr (Finite 0)) = Inr f"
    "(if col_map ''cartons'' \<noteq> None
      then and_then (col_cell col_map ''cartons'' (- 1) row) (\<lambda>c. Inr (safe_float fl c))
      else Inr (Finite 0)) = Inr g"
    "item = \<lparr>sr_no = a, item_id = b, flexi_code = c, item_name = d,
             item_name_short = None, unit = e, qty = f, cartons = g\<rparr>"
  using assms unfolding make_item_def and_then_Inr by blast

subsection \<open>The loop over the vocabulary\<close>

lemma py_lower_vocabulary:
  "m \<in> set field_mapping \<Longrightarrow> py_lower (fst m) = fst m"
  by (auto simp: field_mapping_def py_lower_def lower_char_def)

lemma header_step_keeps:
  "opt_truthy (header d f) \<Longrightarrow> header (header_step pairs m d) f = header d f"
  by (auto simp: header_step_def Let_def)

lemma fold_header_step_keeps:
  "opt_truthy (header d f) \<Longrightarrow> header (fold (header_step pairs) ms d) f = header d f"
proof (induction ms arbitrary: d)
  case Nil
  then show ?case by simp
next
  case (Cons m ms)
  have "opt_truthy (header (header_step pairs m d) f)"
    using Cons.prems by (simp add: header_step_keeps)
  then have "header (fold (header_step pairs) ms (header_step pairs m d)) f
             = header (header_step pairs m d) f"
    by (rule Cons.IH)
  then show ?case using Cons.prems by (simp add: header_step_keeps)
qed

lemma fold_header_step_find:
  "\<not> opt_truthy (header d f) \<Longrightarrow>
   header (fold (header_step pairs) ms d) f =
     (case find (\<lambda>m. snd m = f \<and> opt_truthy (pairs (py_lower (fst m)))) ms of
        None \<Rightarrow> header d f
      | Some m \<Rightarrow> pairs (py_lower (fst m)))"
proof (induction ms arbitrary: d)
  case Nil
  then show ?case by simp
next
  case (Cons m ms)
  show ?case
  proof (cases "snd m = f \<and> opt_truthy (pairs (py_lower (fst m)))")
    case True
    then have h: "header (header_step pairs m d) f = pairs (py_lower (fst m))"
      using Cons.prems by (auto simp: header_step_def Let_def opt_truthy_def split: option.splits)
    with True have "opt_truthy (header (header_step pairs m d) f)" by simp
    then have "header (fold (header_step pairs) ms (header_step pairs m d)) f
               = header (header_step pairs m d) f"
      by (rule fold_header_step_keeps)
    with h True show ?thesis by simp
  next
    case False
    then have h: "header (header_step pairs m d) f = header d f"
      by (auto simp: header_step_def Let_def)
    with Cons.prems have "\<not> opt_truthy (header (header_step pairs m d) f)" by simp
    from Cons.IH[OF this] h False show ?thesis by (auto split: option.splits)
  qed
qed

lemma find_cong_set:
  "(\<And>x. x \<in> set xs \<Longrightarrow> P x = Q x) \<Longrightarrow> find P xs = find Q xs"
  by (induction xs) auto

subsection \<open>The examples, step by step\<close>

lemma unlabelled_new_grid:
  "new_grid (JInt 2) (JInt 4) = Inr [[None, None, None, None], [None, None, None, None]]"
  by (simp add: new_grid_def py_range_def and_then_def eval_nat_numeral)

lemma table_cell_step:
  "0 \<le> r \<Longrightarrow> r < rc \<Longrightarrow> 0 \<le> c \<Longrightarrow> c < cc \<Longrightarrow>
   nat r < length grid \<Longrightarrow> nat c < length (grid ! nat r) \<Longrightarrow>
   cell_step (JInt rc) (JInt cc) (table_cell r c s) grid
     = Inr (grid[nat r := (grid ! nat r)[nat c := Some (py_strip s)]])"
  by (auto simp add: cell_step_def table_cell_def py_get_def str_strip_def and_then_def
      py_index_def int_index_def)

lemma unlabelled_strips:
  "py_strip ''Sr'' = ''Sr''" "py_strip ''Code'' = ''Code''"
  "py_strip ''Item Name'' = ''Item Name''" "py_strip ''Amount'' = ''Amount''"
  "py_strip ''7'' = ''7''" "py_strip ''X1'' = ''X1''"
  "py_strip ''Chair'' = ''Chair''" "py_strip ''5'' = ''5''"
  by (simp_all add: py_strip_def is_space_def)

lemma unlabelled_fill_grid:
  "fill_grid (JInt 2) (JInt 4)
     [table_cell 0 0 ''Sr'', table_cell 0 1 ''Code'',
      table_cell 0 2 ''Item Name'', table_cell 0 3 ''Amount'',
      table_cell 1 0 ''7'', table_cell 1 1 ''X1'',
      table_cell 1 2 ''Chair'', table_cell 1 3 ''5'']
     [[None, None, None, None], [None, None, None, None]]
   = Inr [[Some ''Sr'', Some ''Code'', Some ''Item Name'', Some ''Amount''],
          [Some ''7'', Some ''X1'', Some ''Chair'', Some ''5'']]"
  by (simp add: fill_grid_def table_cell_step unlabelled_strips)

lemma unlabelled_header_texts:
  "header_text (Some ''Sr'') = ''sr''" "header_text (Some ''Code'') = ''code''"
  "header_text (Some ''Item Name'') = ''item name''"
  "header_text (Some ''Amount'') = ''amount''"
  by (simp_all add: header_text_def str_truthy_def py_lower_def lower_char_def py_strip_def
      is_space_def)

lemma unlabelled_column_keys:
  "column_key ''sr'' = Some ''sr_no''" "column_key ''code'' = None"
  "column_key ''item name'' = Some ''item_name''" "column_key ''amount'' = None"
  by (simp_all add: column_key_def)

lemma unlabelled_col_map:
  "build_col_map [''sr'', ''code'', ''item name'', ''amount'']
     = [''sr_no'' \<mapsto> 0, ''item_name'' \<mapsto> 2]"
  by (simp add: build_col_map_def enumerate_eq_zip upt_rec col_map_step_def
      unlabelled_column_keys numeral_2_eq_2)

lemma unlabelled_make_item:
  "make_item example_float [''sr_no'' \<mapsto> 0, ''item_name'' \<mapsto> 2] (Suc 0)
     [Some ''7'', Some ''X1'', Some ''Chair'', Some ''5'']
  = Inr \<lparr>sr_no = 7, item_id = Some [], flexi_code = Some [],
         item_name = Some ''Chair'', item_name_short = None, unit = Some [],
         qty = Finite 0, cartons = Finite 0\<rparr>"
  by (simp add: make_item_def and_then_def col_cell_def int_index_def safe_int_def
     remove_commas_def example_float_def float_to_int_def)

lemma phone_pairs:
  "extract_key_value_pairs (JObj [(''keyValuePairs'', JArr
      [JObj [(''key'', JObj [(''content'', JStr ''Customer Phone'')]),
             (''value'', JObj [(''content'', JStr ''0501234567'')])]])])
   = Inr [''customer phone'' \<mapsto> JStr ''0501234567'']"
  by (simp add: extract_key_value_pairs_def py_get_def py_iter_def kv_step_def str_lower_def
      str_strip_def py_lower_def lower_char_def py_strip_def is_space_def)

lemma phone_update:
  "update_header_fields [''customer phone'' \<mapsto> JStr ''0501234567''] new_delivery_note
     = new_delivery_note"
  by (simp add: update_header_fields_def field_mapping_def header_step_def py_lower_def
      lower_char_def opt_truthy_def)

subsection \<open>A result of the documented shape is parsed\<close>







lemma py_eq_int_zero [simp]: "py_eq (JInt n) (JInt 0) \<longleftrightarrow> n = 0"
  by (simp add: float_eq_def)

lemma py_lt_int [simp]: "py_lt (JInt a) (JInt b) = Inr (a < b)"
  by simp



















subsection \<open>The example table has the documented shape\<close>


lemma table_cell_ok:
  "0 \<le> r \<Longrightarrow> 0 \<le> c \<Longrightarrow> cell_ok (table_cell r c s)"
  by (simp add: cell_ok_def table_cell_def count_ok_def content_ok_def)




subsection \<open>Why the texts must be finite\<close>

text \<open>
  \<open>safe_int\<close> catches \<open>ValueError\<close> and \<open>TypeError\<close> but not the \<open>OverflowError\<close> of
  \<open>int(float("inf"))\<close>: a table of the documented shape is not parsed when a cell of the
  sequence-number column reads as an infinite float.
\<close>

lemma inf_table_raises:
  "table_ok inf_table \<and> \<not> table_finite example_float inf_table
   \<and> parse_items_table example_float d inf_table = Inl OverflowError"
proof -
  have ok: "table_ok inf_table"
    by (simp add: table_ok_def inf_table_def count_ok_def table_cell_ok)
  have st: "py_strip ''Sr'' = ''Sr''" "py_strip ''inf'' = ''inf''"
    by (simp_all add: py_strip_def is_space_def)
  have nf: "\<not> table_finite example_float inf_table"
    by (simp add: table_finite_def inf_table_def cell_finite_def table_cell_def st
        finite_text_def remove_commas_def example_float_def)
  have g0: "new_grid (JInt 2) (JInt 1) = Inr [[None], [None]]"
    by (simp add: new_grid_def py_range_def eval_nat_numeral)
  have g1: "fill_grid (JInt 2) (JInt 1) [table_cell 0 0 ''Sr'', table_cell 1 0 ''inf'']
              [[None], [None]] = Inr [[Some ''Sr''], [Some ''inf'']]"
    by (simp add: fill_grid_def table_cell_step st)
  have cm: "build_col_map [''sr''] = [''sr_no'' \<mapsto> 0]"
    by (simp add: build_col_map_def enumerate_eq_zip col_map_step_def unlabelled_column_keys)
  have mk: "make_item example_float [''sr_no'' \<mapsto> 0] (Suc 0) [Some ''inf''] = Inl OverflowError"
    by (simp add: make_item_def col_cell_def int_index_def safe_int_def remove_commas_def
        example_float_def float_to_int_def)
  have "parse_items_table example_float d inf_table = Inl OverflowError"
    by (simp add: parse_items_table_def inf_table_def py_get_def float_eq_def g0 py_iter_def
        g1 py_nth_def unlabelled_header_texts cm py_range_def upt_rec row_step_def mk
        str_truthy_def Let_def)
  with ok nf show ?thesis by blast
qed

subsection \<open>The payment type after validation\<close>


subsection \<open>The claims about the extraction\<close>

text \<open>
  Claim C2, as stated, fails. In this table the headers \<open>Code\<close> (column 1) and \<open>Amount\<close>
  (column 3) match no rule, so \<open>item_id\<close> and \<open>qty\<close> are unclassified; the item of the
  data row has the empty \<open>item_id\<close> and \<open>qty\<close> zero, not \<open>X1\<close> and \<open>5\<close> from columns 1
  and 3.
\<close>

theorem positional_fallback_counterexample:
  "parse_items_table example_float new_delivery_note unlabelled_table
    = Inr (new_delivery_note\<lparr>items :=
         [\<lparr>sr_no = 7, item_id = Some [], flexi_code = Some [],
           item_name = Some ''Chair'', item_name_short = None, unit = Some [],
           qty = Finite 0, cartons = Finite 0\<rparr>]\<rparr>)"
  by (simp add: parse_items_table_def unlabelled_table_def py_get_def and_then_def unlabelled_new_grid unlabelled_fill_grid
      py_iter_def py_nth_def unlabelled_header_texts unlabelled_col_map py_range_def row_step_def unlabelled_make_item str_truthy_def float_eq_def upt_rec Let_def)

text \<open>
  Claim C2, amended. A field whose column was not classified takes a fixed default:
  \<open>sr_no\<close> the row index; \<open>item_id\<close>, \<open>flexi_code\<close>, \<open>item_name\<close> and \<open>unit\<close> the empty
  string; \<open>qty\<close> and \<open>cartons\<close> zero. No column is read for it: the defaults 1, 2 and 3
  of the lookups are behind the test that the key is present. With nothing classified
  the item is all defaults.
\<close>

theorem unclassified_fields_default:
  "(make_item fl col_map row_idx row = Inr item \<longrightarrow>
      (col_map ''sr_no'' = None \<longrightarrow> sr_no item = int row_idx) \<and>
      (col_map ''item_id'' = None \<longrightarrow> item_id item = Some []) \<and>
      (col_map ''flexi_code'' = None \<longrightarrow> flexi_code item = Some []) \<and>
      (col_map ''item_name'' = None \<longrightarrow> item_name item = Some []) \<and>
      (col_map ''unit'' = None \<longrightarrow> unit item = Some []) \<and>
      (col_map ''qty'' = None \<longrightarrow> qty item = Finite 0) \<and>
      (col_map ''cartons'' = None \<longrightarrow> cartons item = Finite 0))
   \<and> make_item fl Map.empty row_idx row =
        Inr \<lparr>sr_no = int row_idx, item_id = Some [], flexi_code = Some [],
             item_name = Some [], item_name_short = None, unit = Some [],
             qty = Finite 0, cartons = Finite 0\<rparr>"
proof (intro conjI impI)
  assume "make_item fl col_map row_idx row = Inr item" and "col_map ''sr_no'' = None"
  then show "sr_no item = int row_idx" by (elim make_item_Inr) simp
next
  assume "make_item fl col_map row_idx row = Inr item" and "col_map ''item_id'' = None"
  then show "item_id item = Some []" by (elim make_item_Inr) simp
next
  assume "make_item fl col_map row_idx row = Inr item" and "col_map ''flexi_code'' = None"
  then show "flexi_code item = Some []" by (elim make_item_Inr) simp
next
  assume "make_item fl col_map row_idx row = Inr item" and "col_map ''item_name'' = None"
  then show "item_name item = Some []" by (elim make_item_Inr) simp
next
  assume "make_item fl col_map row_idx row = Inr item" and "col_map ''unit'' = None"
  then show "unit item = Some []" by (elim make_item_Inr) simp
next
  assume "make_item fl col_map row_idx row = Inr item" and "col_map ''qty'' = None"
  then show "qty item = Finite 0" by (elim make_item_Inr) simp
next
  assume "make_item fl col_map row_idx row = Inr item" and "col_map ''cartons'' = None"
  then show "cartons item = Finite 0" by (elim make_item_Inr) simp
next
  show "make_item fl Map.empty row_idx row =
        Inr \<lparr>sr_no = int row_idx, item_id = Some [], flexi_code = Some [],
             item_name = Some [], item_name_short = None, unit = Some [],
             qty = Finite 0, cartons = Finite 0\<rparr>"
    by (simp add: make_item_def)
qed

theorem unclassified_fields_default_witness:
  "make_item example_float [''sr_no'' \<mapsto> 0, ''item_name'' \<mapsto> 2] (Suc 0)
       [Some ''7'', Some ''X1'', Some ''Chair'', Some ''5'']
     = Inr \<lparr>sr_no = 7, item_id = Some [], flexi_code = Some [],
            item_name = Some ''Chair'', item_name_short = None, unit = Some [],
            qty = Finite 0, cartons = Finite 0\<rparr>
   \<and> [''sr_no'' \<mapsto> (0::nat), ''item_name'' \<mapsto> 2] ''item_id'' = None
   \<and> [''sr_no'' \<mapsto> (0::nat), ''item_name'' \<mapsto> 2] ''qty'' = None
   \<and> item_id \<lparr>sr_no = 7, item_id = Some [], flexi_code = Some [],
            item_name = Some ''Chair'', item_name_short = None, unit = Some [],
            qty = Finite 0, cartons = Finite 0\<rparr> = Some []"
  using unclassified_fields_default
    [of example_float "[''sr_no'' \<mapsto> 0, ''item_name'' \<mapsto> 2]" "Suc 0"
        "[Some ''7'', Some ''X1'', Some ''Chair'', Some ''5'']"
        "\<lparr>sr_no = 7, item_id = Some [], flexi_code = Some [],
          item_name = Some ''Chair'', item_name_short = None, unit = Some [],
          qty = Finite 0, cartons = Finite 0\<rparr>"]
    unlabelled_make_item
  by simp

text \<open>
  Claim C3, as stated, fails. The label \<open>customer phone\<close> contains \<open>phone\<close>, but the
  response with this one pair leaves the document as it was: \<open>customer_phone\<close> stays
  unset.
\<close>

theorem substring_label_counterexample:
  "contains ''phone'' ''customer phone''
   \<and> extract_key_value_pairs (JObj [(''keyValuePairs'', JArr
        [JObj [(''key'', JObj [(''content'', JStr ''Customer Phone'')]),
               (''value'', JObj [(''content'', JStr ''0501234567'')])]])])
      = Inr [''customer phone'' \<mapsto> JStr ''0501234567'']
   \<and> parse_azure_response example_float new_delivery_note phone_result = Inr new_delivery_note
   \<and> header new_delivery_note ''customer_phone'' = None"
proof -
  have "header new_delivery_note ''customer_phone'' = None"
    by (simp add: new_delivery_note_def)
  then show ?thesis
    by (simp add: phone_pairs parse_azure_response_def parse_body_def phone_result_def
        py_get_def phone_update)
qed

text \<open>
  Claim C3, amended. The vocabulary is looked up in the mapping by equality: a header
  field that is not yet set takes the value stored under the first vocabulary key, in the
  order of the table, that maps to this field and whose value in the mapping is truthy;
  labels that merely contain a vocabulary key are never read.
\<close>

theorem labels_match_exactly:
  "header (update_header_fields pairs d) f =
     (if opt_truthy (header d f) then header d f
      else case find (\<lambda>m. snd m = f \<and> opt_truthy (pairs (fst m))) field_mapping of
             None \<Rightarrow> header d f
           | Some m \<Rightarrow> pairs (fst m))"
proof (cases "opt_truthy (header d f)")
  case True
  then show ?thesis by (simp add: update_header_fields_def fold_header_step_keeps)
next
  case False
  have eq: "find (\<lambda>m. snd m = f \<and> opt_truthy (pairs (py_lower (fst m)))) field_mapping
          = find (\<lambda>m. snd m = f \<and> opt_truthy (pairs (fst m))) field_mapping"
    by (rule find_cong_set) (simp add: py_lower_vocabulary)
  show ?thesis
  proof (cases "find (\<lambda>m. snd m = f \<and> opt_truthy (pairs (fst m))) field_mapping")
    case None
    with False eq show ?thesis
      by (simp add: update_header_fields_def fold_header_step_find)
  next
    case (Some m)
    then have "m \<in> set field_mapping" by (auto simp: find_Some_iff)
    then have "py_lower (fst m) = fst m" by (rule py_lower_vocabulary)
    with False eq Some show ?thesis
      by (simp add: update_header_fields_def fold_header_step_find)
  qed
qed

theorem labels_match_exactly_witness:
  "header (update_header_fields [''phone'' \<mapsto> JStr ''0501234567''] new_delivery_note)
      ''customer_phone'' = Some (JStr ''0501234567'')"
  using labels_match_exactly
    [of "[''phone'' \<mapsto> JStr ''0501234567'']" new_delivery_note "''customer_phone''"]
  by (simp add: new_delivery_note_def opt_truthy_def field_mapping_def)

text \<open>
  Claim C7. A header field that is already non-empty is never assigned: not by one step
  of the loop, not by a whole pass over the vocabulary, not by a whole extraction of any
  result; within one pass, once a prefix of the vocabulary has populated the field the rest
  of the pass leaves it. A step assigns only an empty field, and only from its own label.
\<close>

theorem first_write_wins:
  "(opt_truthy (header d f) \<longrightarrow>
      header (header_step pairs m d) f = header d f \<and>
      header (update_header_fields pairs d) f = header d f \<and>
      (\<forall>d'. parse_azure_response fl d r = Inr d' \<longrightarrow> header d' f = header d f))
   \<and> (\<forall>ms1 ms2. field_mapping = ms1 @ ms2 \<and>
         opt_truthy (header (fold (header_step pairs) ms1 d) f) \<longrightarrow>
         header (update_header_fields pairs d) f = header (fold (header_step pairs) ms1 d) f)
   \<and> (\<not> opt_truthy (header d f) \<longrightarrow>
         header (header_step pairs m d) f =
           (if snd m = f \<and> opt_truthy (pairs (py_lower (fst m)))
            then pairs (py_lower (fst m)) else header d f))"
proof (intro conjI impI allI)
  assume t: "opt_truthy (header d f)"
  then show "header (header_step pairs m d) f = header d f"
    by (rule header_step_keeps)
  from t show u: "header (update_header_fields pairs d) f = header d f"
    by (simp add: update_header_fields_def fold_header_step_keeps)
  fix d' assume "parse_azure_response fl d r = Inr d'"
  then have "parse_body fl d r = Inr d'" by (simp add: parse_azure_response_Inr)
  then obtain ps where "header d' = header (update_header_fields ps d)"
    using parse_body_header by blast
  with t show "header d' f = header d f"
    by (simp add: update_header_fields_def fold_header_step_keeps)
next
  fix ms1 ms2
  assume a: "field_mapping = ms1 @ ms2 \<and> opt_truthy (header (fold (header_step pairs) ms1 d) f)"
  then have e: "field_mapping = ms1 @ ms2" by blast
  have "update_header_fields pairs d
             = fold (header_step pairs) ms2 (fold (header_step pairs) ms1 d)"
    unfolding update_header_fields_def by (subst e) simp
  with a show "header (update_header_fields pairs d) f = header (fold (header_step pairs) ms1 d) f"
    by (simp add: fold_header_step_keeps)
next
  assume "\<not> opt_truthy (header d f)"
  then show "header (header_step pairs m d) f =
           (if snd m = f \<and> opt_truthy (pairs (py_lower (fst m)))
            then pairs (py_lower (fst m)) else header d f)"
    by (auto simp: header_step_def Let_def opt_truthy_def split: option.splits)
qed

theorem first_write_wins_witness:
  "opt_truthy (header (new_delivery_note\<lparr>header := [''delivery_note_no'' \<mapsto> JStr ''DN-1'']\<rparr>)
                 ''delivery_note_no'')
   \<and> header (update_header_fields [''dn no'' \<mapsto> JStr ''DN-2'']
               (new_delivery_note\<lparr>header := [''delivery_note_no'' \<mapsto> JStr ''DN-1'']\<rparr>))
        ''delivery_note_no'' = Some (JStr ''DN-1'')"
proof -
  let ?d = "new_delivery_note\<lparr>header := [''delivery_note_no'' \<mapsto> JStr ''DN-1'']\<rparr>"
  have t: "opt_truthy (header ?d ''delivery_note_no'')"
    by (simp add: opt_truthy_def)
  from first_write_wins [of ?d "''delivery_note_no''" "[''dn no'' \<mapsto> JStr ''DN-2'']"] t
  have "header (update_header_fields [''dn no'' \<mapsto> JStr ''DN-2''] ?d) ''delivery_note_no''
        = header ?d ''delivery_note_no''"
    by blast
  with t show ?thesis by simp
qed

text \<open>
  Claim C8 on the code: a cell with row index \<open>-1\<close> passes the test
  \<open>row_idx < row_count and col_idx < column_count\<close> and is written to the last row of the
  grid instead of being discarded.
\<close>

theorem negative_row_index_placed:
  "new_grid (JInt 2) (JInt 1) = Inr [[None], [None]]
   \<and> fill_grid (JInt 2) (JInt 1) [table_cell (- 1) 0 ''X''] [[None], [None]]
      = Inr [[None], [Some ''X'']]"
  by (simp add: new_grid_def py_range_def and_then_def numeral_2_eq_2
      fill_grid_def cell_step_def table_cell_def py_get_def str_strip_def py_strip_def
      is_space_def py_index_def int_index_def)




subsection \<open>The payment type\<close>



end
